theory Spec2Isabelle
  imports Main "HOL-Library.Multiset" "HOL-Library.Product_Lexorder" "HOL-Library.Sublist"
begin

section \<open>Backend routing (config.py, server.py)\<close>

text \<open>
  The enum \<open>Backend\<close> of config.py with its two values, and the three constant sets of
  tool names. Python strings are modelled as \<open>string\<close>; tool and backend names are ASCII.
\<close>

datatype Backend = ROPE | PYRIGHT

definition SHARED_TOOLS :: "string set" where
  "SHARED_TOOLS = {''hover'', ''definition'', ''references'', ''completions'', ''symbols''}"

definition ROPE_ONLY_TOOLS :: "string set" where
  "ROPE_ONLY_TOOLS = {''rename''}"

definition PYRIGHT_ONLY_TOOLS :: "string set" where
  "PYRIGHT_ONLY_TOOLS = {''diagnostics'', ''signature_help''}"

text \<open>The dataclass \<open>ServerConfig\<close>: a default backend and a dict of per-tool overrides.\<close>

record ServerConfig =
  default_backend :: Backend
  tool_backends :: "string \<rightharpoonup> Backend"

text \<open>\<open>ServerConfig.get_backend_for\<close>: the two exclusivity tests come first.\<close>

definition get_backend_for :: "ServerConfig \<Rightarrow> string \<Rightarrow> Backend" where
  "get_backend_for cfg tool =
     (if tool \<in> ROPE_ONLY_TOOLS then ROPE
      else if tool \<in> PYRIGHT_ONLY_TOOLS then PYRIGHT
      else (case tool_backends cfg tool of
              Some b \<Rightarrow> b
            | None \<Rightarrow> default_backend cfg))"

text \<open>
  \<open>ServerConfig.set_backend(backend, tool=None)\<close>: with no tool the default is set; with a
  shared tool the override is stored; any other tool name changes nothing.
\<close>

definition ServerConfig_set_backend :: "ServerConfig \<Rightarrow> Backend \<Rightarrow> string option \<Rightarrow> ServerConfig" where
  "ServerConfig_set_backend cfg backend tool =
     (case tool of
        None \<Rightarrow> cfg\<lparr>default_backend := backend\<rparr>
      | Some t \<Rightarrow>
          (if t \<in> SHARED_TOOLS then cfg\<lparr>tool_backends := (tool_backends cfg)(t \<mapsto> backend)\<rparr>
           else cfg))"

text \<open>\<open>ServerConfig.set_all_backends\<close>: sets the default and clears the dict.\<close>

definition set_all_backends :: "ServerConfig \<Rightarrow> Backend \<Rightarrow> ServerConfig" where
  "set_all_backends cfg backend = cfg\<lparr>default_backend := backend, tool_backends := Map.empty\<rparr>"

text \<open>
  \<open>str.lower()\<close> on ASCII text, and the enum constructor \<open>Backend(value)\<close>, which raises
  ValueError (here \<open>None\<close>) for any string other than the two values.
\<close>

definition lower_char :: "char \<Rightarrow> char" where
  "lower_char c =
     (let n = (of_char c :: nat) in if 65 \<le> n \<and> n \<le> 90 then char_of (n + 32) else c)"

definition lower :: "string \<Rightarrow> string" where
  "lower s = map lower_char s"

definition Backend_of_value :: "string \<Rightarrow> Backend option" where
  "Backend_of_value v =
     (if v = ''rope'' then Some ROPE
      else if v = ''pyright'' then Some PYRIGHT
      else None)"

text \<open>
  \<open>_get_effective_backend(tool, backend)\<close> of server.py. The optional argument is tested
  for truthiness (\<open>None\<close> and the empty string are both skipped); a truthy string that names
  a backend after lowercasing is returned at once; a ValueError is swallowed and the stored
  configuration decides.
\<close>

definition get_effective_backend :: "ServerConfig \<Rightarrow> string \<Rightarrow> string option \<Rightarrow> Backend" where
  "get_effective_backend cfg tool backend =
     (case backend of
        None \<Rightarrow> get_backend_for cfg tool
      | Some s \<Rightarrow>
          (if s = [] then get_backend_for cfg tool
           else (case Backend_of_value (lower s) of
                   Some b \<Rightarrow> b
                 | None \<Rightarrow> get_backend_for cfg tool)))"

text \<open>
  The tool \<open>set_backend(backend, tool=None)\<close> of server.py. Its JSON reply is modelled by
  a datatype: the error replies carry the rejected name, the success replies the fields the
  source puts in the dict. With a truthy \<open>tool\<close> it calls \<open>ServerConfig.set_backend\<close>;
  with \<open>tool\<close> omitted (or empty) it calls \<open>set_all_backends\<close>.
\<close>

datatype set_backend_reply =
    InvalidBackend string
  | InvalidTool string
  | ToolBackendSet string string
  | DefaultBackendSet string

definition set_backend :: "ServerConfig \<Rightarrow> string \<Rightarrow> string option \<Rightarrow> ServerConfig \<times> set_backend_reply" where
  "set_backend cfg backend tool =
     (case Backend_of_value (lower backend) of
        None \<Rightarrow> (cfg, InvalidBackend backend)
      | Some backend_enum \<Rightarrow>
          (case tool of
             None \<Rightarrow> (set_all_backends cfg backend_enum, DefaultBackendSet backend)
           | Some t \<Rightarrow>
               (if t = [] then (set_all_backends cfg backend_enum, DefaultBackendSet backend)
                else if t \<notin> SHARED_TOOLS then (cfg, InvalidTool t)
                else (ServerConfig_set_backend cfg backend_enum (Some t), ToolBackendSet t backend))))"

section \<open>Paths (posixpath and pathlib, as the code calls them)\<close>

text \<open>
  The code manipulates paths through \<open>os.path\<close> and \<open>pathlib.Path\<close> of the Python
  standard library. Both are modelled for a POSIX platform, on strings: \<open>startswith\<close> is
  \<^const>\<open>prefix\<close>, \<open>str.split('/')\<close> is \<open>split_sep\<close>, \<open>'/'.join\<close> is
  \<open>join_sep\<close>. The current directory is a field of the environment below.
\<close>

fun split_sep :: "char \<Rightarrow> string \<Rightarrow> string list" where
  "split_sep d [] = [[]]"
| "split_sep d (c # cs) =
     (if c = d then [] # split_sep d cs
      else (case split_sep d cs of
              [] \<Rightarrow> [[c]]
            | w # ws \<Rightarrow> (c # w) # ws))"

fun join_sep :: "string list \<Rightarrow> string" where
  "join_sep [] = []"
| "join_sep [w] = w"
| "join_sep (w # v # ws) = w @ ''/'' @ join_sep (v # ws)"

text \<open>\<open>posixpath.join(a, b)\<close> for two arguments.\<close>

definition path_join :: "string \<Rightarrow> string \<Rightarrow> string" where
  "path_join a b =
     (if prefix ''/'' b then b
      else if a = [] \<or> last a = CHR ''/'' then a @ b
      else a @ ''/'' @ b)"

text \<open>
  \<open>posixpath.normpath\<close>: empty and \<open>.\<close> components are dropped, \<open>..\<close> removes the
  component before it (or is dropped at the root), exactly two leading slashes are kept.
\<close>

definition norm_step :: "nat \<Rightarrow> string list \<Rightarrow> string \<Rightarrow> string list" where
  "norm_step initial_slashes new_comps part =
     (if part = [] \<or> part = ''.'' then new_comps
      else if part \<noteq> ''..'' \<or> (initial_slashes = 0 \<and> new_comps = [])
                \<or> (new_comps \<noteq> [] \<and> last new_comps = ''..'')
           then new_comps @ [part]
      else if new_comps \<noteq> [] then butlast new_comps
      else new_comps)"

definition normpath :: "string \<Rightarrow> string" where
  "normpath path =
     (if path = [] then ''.''
      else
        (let initial_slashes =
               (if prefix ''/'' path
                then (if prefix ''//'' path \<and> \<not> prefix ''///'' path then 2 else 1)
                else (0::nat));
             comps = foldl (norm_step initial_slashes) [] (split_sep CHR ''/'' path);
             p = replicate initial_slashes CHR ''/'' @ join_sep comps
         in if p = [] then ''.'' else p))"

text \<open>\<open>os.path.abspath\<close>, with the current directory passed in.\<close>

definition abspath :: "string \<Rightarrow> string \<Rightarrow> string" where
  "abspath cwd path = normpath (if prefix ''/'' path then path else path_join cwd path)"

text \<open>
  A \<open>pathlib.PurePosixPath\<close> is its root (empty, \<open>/\<close> or \<open>//\<close>) and its parts;
  parsing drops empty and \<open>.\<close> parts and keeps \<open>..\<close>. \<open>path_str\<close> is \<open>str(p)\<close>,
  \<open>path_div\<close> is the operator \<open>/\<close>.
\<close>

type_synonym path = "string \<times> string list"

definition Path :: "string \<Rightarrow> path" where
  "Path s =
     ((if prefix ''/'' s
       then (if prefix ''//'' s \<and> \<not> prefix ''///'' s then ''//'' else ''/'')
       else []),
      filter (\<lambda>x. x \<noteq> [] \<and> x \<noteq> ''.'') (split_sep CHR ''/'' s))"

definition path_str :: "path \<Rightarrow> string" where
  "path_str p = (if fst p = [] \<and> snd p = [] then ''.'' else fst p @ join_sep (snd p))"

definition is_absolute :: "path \<Rightarrow> bool" where
  "is_absolute p = (fst p \<noteq> [])"

definition path_div :: "path \<Rightarrow> path \<Rightarrow> path" where
  "path_div p q = (if is_absolute q then q else (fst p, snd p @ snd q))"

section \<open>Process environment and module state\<close>

text \<open>
  Values that \<open>json.load\<close> and \<open>tomllib.load\<close> can return (numbers are integers
  here), and the exception classes that occur, \<open>OSError\<close> standing for its subclasses too.
\<close>

datatype pyval =
    PNone
  | PBool bool
  | PInt int
  | PStr string
  | PList "pyval list"
  | PDict "(string \<times> pyval) list"

datatype py_error =
    TypeError
  | AttributeError
  | KeyError
  | IndexError
  | OSError
  | UnicodeDecodeError
  | RecursionError

text \<open>
  The outcome of \<open>open\<close> followed by \<open>json.load\<close> or \<open>tomllib.load\<close>: \<open>OSError\<close>
  from \<open>open\<close> or from reading, the parser's own decode error (\<open>JSONDecodeError\<close>,
  \<open>TOMLDecodeError\<close>), an exception of any other class (\<open>UnicodeDecodeError\<close> for a
  file that is not UTF-8, \<open>RecursionError\<close> for deeply nested JSON), or the parsed value.
\<close>

datatype load_result =
    LoadOSError
  | LoadDecodeError
  | LoadOtherError py_error
  | Loaded pyval

text \<open>
  The outcome of the \<open>stat\<close> call behind \<open>Path.exists()\<close>: the path exists; it does
  not (the error numbers \<open>Path.exists\<close> ignores, such as ENOENT and ENOTDIR); or
  \<open>stat\<close> fails with another error (a name that is too long, a directory that may not
  be searched), which \<open>Path.exists\<close> re-raises as \<open>OSError\<close>.
\<close>

datatype stat_result = Exists | Missing | StatOSError

text \<open>
  What the code reads from the operating system: the current directory,
  \<open>sys.executable\<close>, the \<open>stat\<close> outcome of a path, which paths are executable
  (\<open>os.access(p, os.X_OK)\<close>, which returns False rather than raise), and what loading a
  JSON or TOML file gives. The platform is POSIX: \<open>sys.platform\<close> is not \<open>win32\<close>, and
  paths are those of \<open>posixpath\<close> and \<open>PurePosixPath\<close>.
\<close>

record os_env =
  cwd :: string
  executable :: string
  fs_stat :: "string \<Rightarrow> stat_result"
  fs_access_x :: "string \<Rightarrow> bool"
  json_load :: "string \<Rightarrow> load_result"
  toml_load :: "string \<Rightarrow> load_result"

text \<open>\<open>Path.exists()\<close> on a rendered path.\<close>

definition Path_exists :: "os_env \<Rightarrow> string \<Rightarrow> py_error + bool" where
  "Path_exists env p =
     (case fs_stat env p of
        Exists \<Rightarrow> Inr True
      | Missing \<Rightarrow> Inr False
      | StatOSError \<Rightarrow> Inl OSError)"

text \<open>The module-level globals of config.py.\<close>

record module_state =
  python_paths :: "string \<rightharpoonup> string"
  global_python_path :: "string option"
  active_workspace :: "string option"

text \<open>Truthiness of an \<open>Optional[str]\<close>: \<open>None\<close> and the empty string are false.\<close>

definition truthy :: "string option \<Rightarrow> bool" where
  "truthy v = (case v of None \<Rightarrow> False | Some s \<Rightarrow> s \<noteq> [])"

section \<open>Workspace containment (config.py)\<close>

definition set_active_workspace :: "os_env \<Rightarrow> module_state \<Rightarrow> string \<Rightarrow> module_state \<times> string" where
  "set_active_workspace env st workspace =
     (let w = abspath (cwd env) workspace in (st\<lparr>active_workspace := Some w\<rparr>, w))"

definition is_file_in_workspace :: "os_env \<Rightarrow> module_state \<Rightarrow> string \<Rightarrow> bool" where
  "is_file_in_workspace env st file_path =
     (if \<not> truthy (active_workspace st) then True
      else prefix (the (active_workspace st)) (abspath (cwd env) file_path))"

text \<open>The error dict of \<open>resolve_file_path\<close>, one field per key.\<close>

record error_dict =
  error :: string
  message :: string
  current_workspace :: string
  resolved_path :: string

definition mismatch_message :: "string \<Rightarrow> string \<Rightarrow> string \<Rightarrow> string" where
  "mismatch_message file_path abs_path ws =
     ''The file '' @ [CHR 0x27] @ file_path @ [CHR 0x27] @ '' resolves to '' @ [CHR 0x27] @ abs_path
     @ [CHR 0x27] @ '', which is outside the active workspace '' @ [CHR 0x27] @ ws @ [CHR 0x27]
     @ ''.'' @ [CHR 0x0A, CHR 0x0A]
     @ ''Current Logic:'' @ [CHR 0x0A]
     @ ''1. I only analyze files from the active project to ensure accuracy and save resources.''
     @ [CHR 0x0A]
     @ ''2. You must explicitly switch the workspace if you want to work on a different project.''
     @ [CHR 0x0A, CHR 0x0A]
     @ ''Action Required:'' @ [CHR 0x0A]
     @ ''Please call '' @ [CHR 0x27] @ ''switch_workspace(path='' @ [CHR 0x22] @ ''...''
     @ [CHR 0x22] @ '')'' @ [CHR 0x27] @ '' with the new project root before retrying.''"

text \<open>
  \<open>resolve_file_path\<close>: the pair (absolute path, error dict) the source returns. A
  relative input is joined onto the active workspace, or made absolute against the current
  directory when none is active; the result is normalised with \<open>abspath\<close>; with an active
  workspace it is rejected unless it starts with the workspace string.
\<close>

definition resolve_file_path ::
  "os_env \<Rightarrow> module_state \<Rightarrow> string \<Rightarrow> string option \<times> error_dict option" where
  "resolve_file_path env st file_path =
     (let path_obj = Path file_path;
          joined =
            (if \<not> is_absolute path_obj then
               (if truthy (active_workspace st)
                then path_join (the (active_workspace st)) file_path
                else abspath (cwd env) file_path)
             else path_str path_obj);
          abs_path = abspath (cwd env) joined
      in if truthy (active_workspace st) \<and> \<not> prefix (the (active_workspace st)) abs_path
         then (None,
               Some \<lparr>error = ''Context Mismatch'',
                     message = mismatch_message file_path abs_path (the (active_workspace st)),
                     current_workspace = the (active_workspace st),
                     resolved_path = abs_path\<rparr>)
         else (Some abs_path, None))"

definition validate_file_workspace :: "os_env \<Rightarrow> module_state \<Rightarrow> string \<Rightarrow> error_dict option" where
  "validate_file_workspace env st file_path = snd (resolve_file_path env st file_path)"

section \<open>Interpreter discovery (config.py)\<close>

text \<open>
  The Python operations the probes apply to a loaded configuration value, each with the
  exception it raises on a value of the wrong type: \<open>key in v\<close>, \<open>v[key]\<close>,
  \<open>v.get(key, default)\<close>, truthiness, \<open>Path(v)\<close> and \<open>p / v\<close>.
\<close>

fun py_contains :: "pyval \<Rightarrow> string \<Rightarrow> py_error + bool" where
  "py_contains (PDict kvs) k = Inr (map_of kvs k \<noteq> None)"
| "py_contains (PList xs) k = Inr (PStr k \<in> set xs)"
| "py_contains (PStr s) k = Inr (sublist k s)"
| "py_contains v k = Inl TypeError"

fun py_getitem :: "pyval \<Rightarrow> string \<Rightarrow> py_error + pyval" where
  "py_getitem (PDict kvs) k = (case map_of kvs k of None \<Rightarrow> Inl KeyError | Some v \<Rightarrow> Inr v)"
| "py_getitem v k = Inl TypeError"

fun py_get :: "pyval \<Rightarrow> string \<Rightarrow> pyval \<Rightarrow> py_error + pyval" where
  "py_get (PDict kvs) k d = Inr (case map_of kvs k of None \<Rightarrow> d | Some v \<Rightarrow> v)"
| "py_get v k d = Inl AttributeError"

fun py_truthy :: "pyval \<Rightarrow> bool" where
  "py_truthy PNone = False"
| "py_truthy (PBool b) = b"
| "py_truthy (PInt n) = (n \<noteq> 0)"
| "py_truthy (PStr s) = (s \<noteq> [])"
| "py_truthy (PList xs) = (xs \<noteq> [])"
| "py_truthy (PDict kvs) = (kvs \<noteq> [])"

fun py_Path :: "pyval \<Rightarrow> py_error + path" where
  "py_Path (PStr s) = Inr (Path s)"
| "py_Path v = Inl TypeError"

fun py_path_div :: "path \<Rightarrow> pyval \<Rightarrow> py_error + path" where
  "py_path_div p (PStr s) = Inr (path_div p (Path s))"
| "py_path_div p v = Inl TypeError"

text \<open>
  The interpreter below a virtual-environment directory, \<open>venv_dir / "bin" / "python"\<close>:
  the else branch of \<open>if sys.platform == "win32"\<close> in both probes, the platform being
  POSIX.
\<close>

definition python_exe_of :: "path \<Rightarrow> path" where
  "python_exe_of venv_dir = path_div (path_div venv_dir (Path ''bin'')) (Path ''python'')"

text \<open>
  \<open>_extract_python_path_from_pyright(config, workspace_path)\<close>. The first definition is
  the block under \<open>if "pythonPath" in config\<close>, the second the \<open>venvPath\<close> + \<open>venv\<close>
  block, the third the function. \<open>exists()\<close> can raise \<open>OSError\<close>.
\<close>

definition extract_direct :: "os_env \<Rightarrow> pyval \<Rightarrow> path \<Rightarrow> py_error + string option" where
  "extract_direct env config workspace_path =
     (case py_getitem config ''pythonPath'' of
        Inl e \<Rightarrow> Inl e
      | Inr v \<Rightarrow>
          (case py_Path v of
             Inl e \<Rightarrow> Inl e
           | Inr p \<Rightarrow>
               (let python_path = (if \<not> is_absolute p then path_div workspace_path p else p)
                in case Path_exists env (path_str python_path) of
                     Inl e \<Rightarrow> Inl e
                   | Inr found \<Rightarrow>
                       (if found then Inr (Some (path_str python_path)) else Inr None))))"

definition extract_venv :: "os_env \<Rightarrow> pyval \<Rightarrow> path \<Rightarrow> py_error + string option" where
  "extract_venv env config workspace_path =
     (case py_get config ''venvPath'' PNone of
        Inl e \<Rightarrow> Inl e
      | Inr venv_path \<Rightarrow>
          (case py_get config ''venv'' PNone of
             Inl e \<Rightarrow> Inl e
           | Inr venv_name \<Rightarrow>
               (if py_truthy venv_path \<and> py_truthy venv_name then
                  (case py_Path venv_path of
                     Inl e \<Rightarrow> Inl e
                   | Inr d \<Rightarrow>
                       (case py_path_div
                               (if \<not> is_absolute d then path_div workspace_path d else d)
                               venv_name of
                          Inl e \<Rightarrow> Inl e
                        | Inr venv_dir \<Rightarrow>
                            (let python_exe = python_exe_of venv_dir
                             in case Path_exists env (path_str python_exe) of
                                  Inl e \<Rightarrow> Inl e
                                | Inr found \<Rightarrow>
                                    (if found then Inr (Some (path_str python_exe))
                                     else Inr None))))
                else Inr None)))"

definition extract_python_path_from_pyright ::
  "os_env \<Rightarrow> pyval \<Rightarrow> path \<Rightarrow> py_error + string option" where
  "extract_python_path_from_pyright env config workspace_path =
     (case py_contains config ''pythonPath'' of
        Inl e \<Rightarrow> Inl e
      | Inr has_key \<Rightarrow>
          (case (if has_key then extract_direct env config workspace_path else Inr None) of
             Inl e \<Rightarrow> Inl e
           | Inr (Some p) \<Rightarrow> Inr (Some p)
           | Inr None \<Rightarrow> extract_venv env config workspace_path))"

text \<open>
  The handler \<open>except (json.JSONDecodeError, OSError): pass\<close> (and the one with
  \<open>TOMLDecodeError\<close>) applied to the outcome of a \<open>try\<close> body: \<open>OSError\<close> is
  swallowed, an exception of another class leaves the function. The decode error is
  swallowed where the load outcome is inspected.
\<close>

definition except_pass :: "py_error + string option \<Rightarrow> py_error + string option" where
  "except_pass r = (case r of Inl e \<Rightarrow> (if e = OSError then Inr None else Inl e) | Inr v \<Rightarrow> Inr v)"

text \<open>
  \<open>find_pyright_python_path(workspace)\<close>: first \<open>pyrightconfig.json\<close>, then the table
  \<open>[tool.pyright]\<close> of \<open>pyproject.toml\<close>. The two \<open>exists()\<close> tests stand before
  their \<open>try\<close>, so an \<open>OSError\<close> of theirs leaves the function. A result is returned
  only when truthy (\<open>if python_path:\<close>).
\<close>

definition from_pyrightconfig :: "os_env \<Rightarrow> path \<Rightarrow> py_error + string option" where
  "from_pyrightconfig env workspace_path =
     (let pyright_config = path_str (path_div workspace_path (Path ''pyrightconfig.json''))
      in case Path_exists env pyright_config of
           Inl e \<Rightarrow> Inl e
         | Inr found \<Rightarrow>
             (if found then
                except_pass
                  (case json_load env pyright_config of
                     LoadOSError \<Rightarrow> Inl OSError
                   | LoadDecodeError \<Rightarrow> Inr None
                   | LoadOtherError e \<Rightarrow> Inl e
                   | Loaded config \<Rightarrow> extract_python_path_from_pyright env config workspace_path)
              else Inr None))"

definition from_pyproject :: "os_env \<Rightarrow> path \<Rightarrow> py_error + string option" where
  "from_pyproject env workspace_path =
     (let pyproject = path_str (path_div workspace_path (Path ''pyproject.toml''))
      in case Path_exists env pyproject of
           Inl e \<Rightarrow> Inl e
         | Inr found \<Rightarrow>
             (if found then
                except_pass
                  (case toml_load env pyproject of
                     LoadOSError \<Rightarrow> Inl OSError
                   | LoadDecodeError \<Rightarrow> Inr None
                   | LoadOtherError e \<Rightarrow> Inl e
                   | Loaded config \<Rightarrow>
                       (case py_get config ''tool'' (PDict []) of
                          Inl e \<Rightarrow> Inl e
                        | Inr tool \<Rightarrow>
                            (case py_get tool ''pyright'' (PDict []) of
                               Inl e \<Rightarrow> Inl e
                             | Inr pyright_config \<Rightarrow>
                                 extract_python_path_from_pyright env pyright_config
                                   workspace_path)))
              else Inr None))"

definition find_pyright_python_path :: "os_env \<Rightarrow> string \<Rightarrow> py_error + string option" where
  "find_pyright_python_path env workspace =
     (let workspace_path = Path workspace
      in case from_pyrightconfig env workspace_path of
           Inl e \<Rightarrow> Inl e
         | Inr python_path \<Rightarrow>
             (if truthy python_path then Inr python_path
              else (case from_pyproject env workspace_path of
                      Inl e \<Rightarrow> Inl e
                    | Inr python_path2 \<Rightarrow>
                        (if truthy python_path2 then Inr python_path2 else Inr None))))"

text \<open>
  \<open>find_venv_python_path(workspace)\<close>: the loop over the three directory names; its
  \<open>exists()\<close> is in no \<open>try\<close>.
\<close>

fun find_venv_loop :: "os_env \<Rightarrow> path \<Rightarrow> string list \<Rightarrow> py_error + string option" where
  "find_venv_loop env workspace_path [] = Inr None"
| "find_venv_loop env workspace_path (venv_dir # rest) =
     (let python_exe = python_exe_of (path_div workspace_path (Path venv_dir))
      in case Path_exists env (path_str python_exe) of
           Inl e \<Rightarrow> Inl e
         | Inr found \<Rightarrow>
             (if found then Inr (Some (path_str python_exe))
              else find_venv_loop env workspace_path rest))"

definition venv_dirs :: "string list" where
  "venv_dirs = [''.venv'', ''venv'', ''env'']"

definition find_venv_python_path :: "os_env \<Rightarrow> string \<Rightarrow> py_error + string option" where
  "find_venv_python_path env workspace = find_venv_loop env (Path workspace) venv_dirs"

text \<open>
  \<open>get_python_path_for_workspace(workspace)\<close>: the stored path of the normalised
  workspace, the global override when truthy, the two probes, then \<open>sys.executable\<close>.
\<close>

definition get_python_path_for_workspace ::
  "os_env \<Rightarrow> module_state \<Rightarrow> string \<Rightarrow> py_error + string" where
  "get_python_path_for_workspace env st workspace0 =
     (let workspace = abspath (cwd env) workspace0
      in case python_paths st workspace of
           Some p \<Rightarrow> Inr p
         | None \<Rightarrow>
             (if truthy (global_python_path st) then Inr (the (global_python_path st))
              else (case find_pyright_python_path env workspace of
                      Inl e \<Rightarrow> Inl e
                    | Inr pyright_path \<Rightarrow>
                        (if truthy pyright_path then Inr (the pyright_path)
                         else (case find_venv_python_path env workspace of
                                 Inl e \<Rightarrow> Inl e
                               | Inr venv_path \<Rightarrow>
                                   (if truthy venv_path then Inr (the venv_path)
                                    else Inr (executable env)))))))"

text \<open>
  \<open>set_python_path(python_path, workspace=None)\<close>. The returned dict is a datatype: the
  failure carries the \<open>error\<close> string, the success the \<open>message\<close>, the \<open>python_path\<close>
  and, when present, the \<open>workspace\<close> key. Existence is tested on
  \<open>Path(python_path)\<close>, which \<open>pathlib\<close> has normalised, and can raise; executability
  is tested by \<open>os.access\<close> on the string as given.
\<close>

datatype set_python_path_result =
    Failure string
  | Success string string "string option"

definition set_python_path ::
  "os_env \<Rightarrow> module_state \<Rightarrow> string \<Rightarrow> string option
     \<Rightarrow> py_error + module_state \<times> set_python_path_result" where
  "set_python_path env st python_path workspace0 =
     (case Path_exists env (path_str (Path python_path)) of
        Inl e \<Rightarrow> Inl e
      | Inr found \<Rightarrow>
          (if \<not> found
           then Inr (st, Failure (''Python path does not exist: '' @ python_path))
           else if \<not> fs_access_x env python_path
           then Inr (st, Failure (''Python path is not executable: '' @ python_path))
           else if truthy workspace0
           then (let workspace = abspath (cwd env) (the workspace0)
                 in Inr (st\<lparr>python_paths := (python_paths st)(workspace \<mapsto> python_path)\<rparr>,
                         Success (''Python path set for workspace: '' @ workspace) python_path
                           (Some workspace)))
           else Inr (st\<lparr>global_python_path := Some python_path\<rparr>,
                     Success ''Global Python path set'' python_path None)))"

subsection \<open>The precedence of the specification\<close>














section \<open>Applying a workspace edit (server.py)\<close>

text \<open>
  An LSP position and a text edit (\<open>range.start\<close>, \<open>range.end\<close>, \<open>newText\<close>); lines and
  characters are the protocol's unsigned integers.
\<close>

record Position =
  line :: nat
  character :: nat

record TextEdit =
  start_pos :: Position
  end_pos :: Position
  newText :: string

text \<open>
  \<open>text_edits.sort(key=..., reverse=True)\<close>: the key is the pair (line, character) of the
  start, compared lexicographically. Python's sort is stable, also with \<open>reverse=True\<close>:
  edits with equal keys keep their input order, which is a stable ascending sort of the
  reversed list, reversed.
\<close>

definition start_key :: "TextEdit \<Rightarrow> nat \<times> nat" where
  "start_key e = (line (start_pos e), character (start_pos e))"

definition sort_reverse :: "TextEdit list \<Rightarrow> TextEdit list" where
  "sort_reverse text_edits = rev (sort_key start_key (rev text_edits))"

text \<open>Python slices \<open>s[:i]\<close> and \<open>s[i:]\<close>; a negative index counts from the end.\<close>

definition slice_to :: "string \<Rightarrow> int \<Rightarrow> string" where
  "slice_to s i = (if 0 \<le> i then take (nat i) s else take (length s - nat (- i)) s)"

definition slice_from :: "string \<Rightarrow> int \<Rightarrow> string" where
  "slice_from s i = (if 0 \<le> i then drop (nat i) s else drop (length s - nat (- i)) s)"

text \<open>
  The loop over the sorted edits. The helper \<open>position_to_offset\<close> of the rope client is
  the parameter \<open>p2o\<close>; it is called on the current content with 1-based line and column,
  and an exception it raises leaves the loop.
\<close>

fun apply_text_edits ::
  "(string \<Rightarrow> nat \<Rightarrow> nat \<Rightarrow> py_error + int) \<Rightarrow> string \<Rightarrow> TextEdit list \<Rightarrow> py_error + string" where
  "apply_text_edits p2o content [] = Inr content"
| "apply_text_edits p2o content (text_edit # rest) =
     (case p2o content (line (start_pos text_edit) + 1) (character (start_pos text_edit) + 1) of
        Inl e \<Rightarrow> Inl e
      | Inr start_offset \<Rightarrow>
          (case p2o content (line (end_pos text_edit) + 1) (character (end_pos text_edit) + 1) of
             Inl e \<Rightarrow> Inl e
           | Inr end_offset \<Rightarrow>
               apply_text_edits p2o
                 (slice_to content start_offset @ newText text_edit @ slice_from content end_offset)
                 rest))"

definition edit_file ::
  "(string \<Rightarrow> nat \<Rightarrow> nat \<Rightarrow> py_error + int) \<Rightarrow> string \<Rightarrow> TextEdit list \<Rightarrow> py_error + string" where
  "edit_file p2o content text_edits = apply_text_edits p2o content (sort_reverse text_edits)"

text \<open>\<open>uri.replace("file://", "")\<close>: every occurrence is removed, left to right.\<close>

function strip_file_scheme :: "string \<Rightarrow> string" where
  "strip_file_scheme [] = []"
| "strip_file_scheme (c # cs) =
     (if prefix ''file://'' (c # cs) then strip_file_scheme (drop 6 cs)
      else c # strip_file_scheme cs)"
  by pat_completeness auto
termination
  by (relation "measure length") auto

text \<open>
  \<open>_apply_workspace_edit(edit)\<close> over a file store (path to content): \<open>changes\<close> is the
  dict \<open>edit.get("changes", {})\<close> as its list of items. A file that does not exist is
  skipped; a file is written once, after all its edits; an exception stops the function
  with the files written so far.
\<close>

fun apply_workspace_edit ::
  "(string \<Rightarrow> nat \<Rightarrow> nat \<Rightarrow> py_error + int) \<Rightarrow> bool \<Rightarrow> (string \<rightharpoonup> string)
     \<Rightarrow> (string \<times> TextEdit list) list \<Rightarrow> (string \<rightharpoonup> string) \<times> py_error option" where
  "apply_workspace_edit p2o is_win32 files [] = (files, None)"
| "apply_workspace_edit p2o is_win32 files ((uri, text_edits) # changes) =
     (let stripped = strip_file_scheme uri;
          file_path = (if is_win32 \<and> prefix ''/'' stripped then tl stripped else stripped)
      in case files file_path of
           None \<Rightarrow> apply_workspace_edit p2o is_win32 files changes
         | Some content \<Rightarrow>
             (case edit_file p2o content text_edits of
                Inl e \<Rightarrow> (files, Some e)
              | Inr new_content \<Rightarrow>
                  apply_workspace_edit p2o is_win32 (files(file_path \<mapsto> new_content)) changes))"

text \<open>
  Modelled from the spec: \<open>position_to_offset\<close> of the rope client, which is not among
  the sources. The spec says an edit's (line, character) is converted into a character
  offset into the content, 0-based, and that a conversion can fail. Here the offset of a
  position is the offset at which its line starts (the number of characters up to and
  including the newline that ends the line before) plus the character; a line beyond the
  last newline fails. The arguments are 1-based, as the caller passes them.
\<close>

fun line_offset :: "string \<Rightarrow> nat \<Rightarrow> nat option" where
  "line_offset cs 0 = Some 0"
| "line_offset [] (Suc n) = None"
| "line_offset (c # cs) (Suc n) =
     (case line_offset cs (if c = CHR 0x0A then n else Suc n) of
        None \<Rightarrow> None
      | Some k \<Rightarrow> Some (Suc k))"

definition position_to_offset :: "string \<Rightarrow> nat \<Rightarrow> nat \<Rightarrow> py_error + int" where
  "position_to_offset content line1 column1 =
     (case line_offset content (line1 - 1) of
        None \<Rightarrow> Inl IndexError
      | Some k \<Rightarrow> Inr (int k + int column1 - 1))"

text \<open>
  Two edits do not overlap when one ends at or before the start of the other, positions
  compared as (line, character) pairs; an edit is well formed when its start is not after
  its end.
\<close>

definition end_key :: "TextEdit \<Rightarrow> nat \<times> nat" where
  "end_key e = (line (end_pos e), character (end_pos e))"

fun non_overlapping :: "TextEdit list \<Rightarrow> bool" where
  "non_overlapping [] = True"
| "non_overlapping (e # es) =
     (start_key e \<le> end_key e
      \<and> list_all (\<lambda>d. end_key e \<le> start_key d \<or> end_key d \<le> start_key e) es
      \<and> non_overlapping es)"


definition names_backend :: "string option \<Rightarrow> Backend option" where
  "names_backend backend =
     (case backend of
        None \<Rightarrow> None
      | Some s \<Rightarrow> (if s = [] then None else Backend_of_value (lower s)))"

definition pinned_example_config :: ServerConfig where
  "pinned_example_config = \<lparr>default_backend = PYRIGHT, tool_backends = Map.empty\<rparr>"


definition override_example_config :: ServerConfig where
  "override_example_config =
     \<lparr>default_backend = ROPE, tool_backends = [''hover'' \<mapsto> PYRIGHT]\<rparr>"


text \<open>
  An environment with four workspaces: \<open>/proj\<close>, whose \<open>pyrightconfig.json\<close> names the
  virtual-environment root \<open>.\<close> and the environment \<open>myenv\<close>; \<open>/app\<close>, whose
  \<open>pyrightconfig.json\<close> declares an interpreter that does not exist and whose
  \<open>pyproject.toml\<close> names \<open>envs\<close> and \<open>dev\<close>; \<open>/lib\<close>, with a conventional
  \<open>venv\<close> directory only; and \<open>/bare\<close>, with nothing.
\<close>

definition example_env :: os_env where
  "example_env =
     \<lparr>cwd = ''/home/u'', executable = ''/usr/bin/python3'',
      fs_stat = (\<lambda>p. if p \<in> {''.'', ''/proj/pyrightconfig.json'', ''/proj/myenv/bin/python'',
                                 ''/app/pyrightconfig.json'', ''/app/pyproject.toml'',
                                 ''/app/envs/dev/bin/python'', ''/lib/venv/bin/python'',
                                 ''/usr/bin/python3'', ''/etc/hosts''}
                      then Exists else Missing),
      fs_access_x = (\<lambda>p. p \<in> {''/proj/myenv/bin/python'', ''/app/envs/dev/bin/python'',
                                  ''/lib/venv/bin/python'', ''/usr/bin/python3''}),
      json_load = (\<lambda>p. if p = ''/proj/pyrightconfig.json''
                        then Loaded (PDict [(''venvPath'', PStr ''.''), (''venv'', PStr ''myenv'')])
                        else if p = ''/app/pyrightconfig.json''
                        then Loaded (PDict [(''pythonPath'', PStr ''/opt/gone/python'')])
                        else LoadOSError),
      toml_load = (\<lambda>p. if p = ''/app/pyproject.toml''
                        then Loaded (PDict [(''tool'', PDict [(''pyright'',
                               PDict [(''venvPath'', PStr ''envs''), (''venv'', PStr ''dev'')])])])
                        else LoadOSError)\<rparr>"

definition initial_state :: module_state where
  "initial_state = \<lparr>python_paths = Map.empty, global_python_path = None, active_workspace = None\<rparr>"

definition work_state :: module_state where
  "work_state = initial_state\<lparr>active_workspace := Some ''/work''\<rparr>"


definition null_path_env :: os_env where
  "null_path_env =
     example_env\<lparr>json_load := (\<lambda>p. if p = ''/proj/pyrightconfig.json''
                                     then Loaded (PDict [(''pythonPath'', PNone)])
                                     else LoadOSError)\<rparr>"


text \<open>
  The content and the two replacements of the round-trip example, and two insertions at
  one position.
\<close>

definition example_content :: string where
  "example_content = ''line1'' @ [CHR 0x0A] @ ''line2'' @ [CHR 0x0A]"

definition replace_line1 :: TextEdit where
  "replace_line1 =
     \<lparr>start_pos = \<lparr>line = 0, character = 0\<rparr>, end_pos = \<lparr>line = 0, character = 5\<rparr>,
      newText = ''LINE1''\<rparr>"

definition replace_line2 :: TextEdit where
  "replace_line2 =
     \<lparr>start_pos = \<lparr>line = 1, character = 0\<rparr>, end_pos = \<lparr>line = 1, character = 5\<rparr>,
      newText = ''LINE2''\<rparr>"

definition insert_X :: TextEdit where
  "insert_X =
     \<lparr>start_pos = \<lparr>line = 0, character = 1\<rparr>, end_pos = \<lparr>line = 0, character = 1\<rparr>,
      newText = ''X''\<rparr>"

definition insert_Y :: TextEdit where
  "insert_Y =
     \<lparr>start_pos = \<lparr>line = 0, character = 1\<rparr>, end_pos = \<lparr>line = 0, character = 1\<rparr>,
      newText = ''Y''\<rparr>"

section \<open>Backend routing\<close>

lemma lower_examples:
  "lower ''pyright'' = ''pyright''" "lower ''rope'' = ''rope''" "lower ''jedi'' = ''jedi''"
  by (simp_all add: lower_def lower_char_def)

lemma lower_mixed_case: "lower ''PyRight'' = ''pyright''"
  by code_simp

lemma exclusive_not_shared:
  "t \<in> SHARED_TOOLS \<Longrightarrow> t \<notin> ROPE_ONLY_TOOLS \<and> t \<notin> PYRIGHT_ONLY_TOOLS"
  by (auto simp: SHARED_TOOLS_def ROPE_ONLY_TOOLS_def PYRIGHT_ONLY_TOOLS_def)

lemma get_backend_for_rope_only: "t \<in> ROPE_ONLY_TOOLS \<Longrightarrow> get_backend_for cfg t = ROPE"
  by (simp add: get_backend_for_def)

lemma get_backend_for_pyright_only: "t \<in> PYRIGHT_ONLY_TOOLS \<Longrightarrow> get_backend_for cfg t = PYRIGHT"
  by (auto simp: get_backend_for_def ROPE_ONLY_TOOLS_def PYRIGHT_ONLY_TOOLS_def)

lemma effective_unnamed:
  "names_backend e = None \<Longrightarrow> get_effective_backend cfg t e = get_backend_for cfg t"
  by (auto simp: names_backend_def get_effective_backend_def split: option.splits if_splits)

lemma effective_named:
  "names_backend e = Some b \<Longrightarrow> get_effective_backend cfg t e = b"
  by (auto simp: names_backend_def get_effective_backend_def split: option.splits if_splits)

text \<open>
  C2, as the code has it. For a tool pinned to rope (\<open>rename\<close>) or to pyright
  (\<open>diagnostics\<close>, \<open>signature_help\<close>), every stored preference state and every per-call
  argument that names no known backend (absent, empty, or an unknown string), the effective
  backend is the pinned one, before and after \<open>ServerConfig.set_backend\<close>,
  \<open>set_all_backends\<close> and the \<open>set_backend\<close> tool. A per-call argument that names a
  known backend is tested first and is returned for every tool name.
\<close>

theorem pinned_backend_without_known_explicit:
  assumes "names_backend e = None"
  shows "(t \<in> ROPE_ONLY_TOOLS \<longrightarrow>
            get_effective_backend cfg t e = ROPE
          \<and> get_effective_backend (ServerConfig_set_backend cfg b tool) t e = ROPE
          \<and> get_effective_backend (set_all_backends cfg b) t e = ROPE
          \<and> get_effective_backend (fst (set_backend cfg s tool)) t e = ROPE)
       \<and> (t \<in> PYRIGHT_ONLY_TOOLS \<longrightarrow>
            get_effective_backend cfg t e = PYRIGHT
          \<and> get_effective_backend (ServerConfig_set_backend cfg b tool) t e = PYRIGHT
          \<and> get_effective_backend (set_all_backends cfg b) t e = PYRIGHT
          \<and> get_effective_backend (fst (set_backend cfg s tool)) t e = PYRIGHT)
       \<and> (names_backend e' = Some b' \<longrightarrow> get_effective_backend cfg t e' = b')"
  using assms
  by (simp add: effective_unnamed effective_named get_backend_for_rope_only
      get_backend_for_pyright_only)

theorem pinned_backend_without_known_explicit_witness:
  "names_backend (Some ''jedi'') = None
   \<and> ''rename'' \<in> ROPE_ONLY_TOOLS
   \<and> get_effective_backend (fst (set_backend pinned_example_config ''pyright'' (Some ''hover'')))
        ''rename'' (Some ''jedi'') = ROPE
   \<and> get_effective_backend (set_all_backends pinned_example_config PYRIGHT) ''rename'' (Some ''jedi'') = ROPE
   \<and> ''diagnostics'' \<in> PYRIGHT_ONLY_TOOLS
   \<and> get_effective_backend (ServerConfig_set_backend pinned_example_config ROPE None)
        ''diagnostics'' (Some ''jedi'') = PYRIGHT
   \<and> names_backend (Some ''pyright'') = Some PYRIGHT
   \<and> get_effective_backend pinned_example_config ''rename'' (Some ''pyright'') = PYRIGHT"
proof -
  have n: "names_backend (Some ''jedi'') = None"
    by (simp add: names_backend_def Backend_of_value_def lower_examples)
  have k: "names_backend (Some ''pyright'') = Some PYRIGHT"
    by (simp add: names_backend_def Backend_of_value_def lower_examples)
  have r: "''rename'' \<in> ROPE_ONLY_TOOLS" by (simp add: ROPE_ONLY_TOOLS_def)
  have d: "''diagnostics'' \<in> PYRIGHT_ONLY_TOOLS" by (simp add: PYRIGHT_ONLY_TOOLS_def)
  note a = pinned_backend_without_known_explicit [OF n, of "''rename''" pinned_example_config PYRIGHT
      "Some ''hover''" "''pyright''" "Some ''pyright''" PYRIGHT]
  note b = pinned_backend_without_known_explicit [OF n, of "''diagnostics''" pinned_example_config ROPE
      None "''pyright''" "Some ''pyright''" PYRIGHT]
  from a b n k r d show ?thesis by blast
qed

text \<open>
  The effective backend of \<open>rename\<close> with the explicit argument \<open>pyright\<close> is pyright,
  not the pinned rope.
\<close>

theorem pinned_tool_explicit_counterexample:
  "get_effective_backend pinned_example_config ''rename'' (Some ''pyright'') \<noteq> ROPE"
  by (simp add: get_effective_backend_def Backend_of_value_def lower_examples)


text \<open>
  C7, as the code has it. \<open>ServerConfig.set_backend\<close> with no tool sets the default
  backend and leaves the per-tool overrides as they were. The \<open>set_backend\<close> tool of the
  server, called with a known backend and with the tool omitted or empty, calls
  \<open>set_all_backends\<close>: the default is set and every per-tool override is cleared.
\<close>

theorem set_backend_without_tool:
  "default_backend (ServerConfig_set_backend cfg b None) = b
   \<and> tool_backends (ServerConfig_set_backend cfg b None) = tool_backends cfg
   \<and> (Backend_of_value (lower s) = Some b \<and> \<not> truthy tool \<longrightarrow>
        fst (set_backend cfg s tool) = set_all_backends cfg b
        \<and> default_backend (fst (set_backend cfg s tool)) = b
        \<and> tool_backends (fst (set_backend cfg s tool)) = Map.empty)"
  by (auto simp: ServerConfig_set_backend_def set_backend_def set_all_backends_def truthy_def
      split: option.splits)

theorem set_backend_without_tool_witness:
  "Backend_of_value (lower ''rope'') = Some ROPE \<and> \<not> truthy None
   \<and> tool_backends (ServerConfig_set_backend override_example_config ROPE None) ''hover''
       = Some PYRIGHT
   \<and> tool_backends (fst (set_backend override_example_config ''rope'' None)) ''hover'' = None"
proof -
  have v: "Backend_of_value (lower ''rope'') = Some ROPE"
    by (simp add: Backend_of_value_def lower_examples)
  have t: "\<not> truthy None" by (simp add: truthy_def)
  have o: "tool_backends override_example_config ''hover'' = Some PYRIGHT"
    by (simp add: override_example_config_def)
  from set_backend_without_tool [of override_example_config ROPE "''rope''" None] v t o
  show ?thesis by (simp add: set_all_backends_def)
qed

text \<open>
  After the \<open>set_backend\<close> tool without a tool name, the override stored for \<open>hover\<close>
  is gone: the override map is not the one before the call.
\<close>

theorem set_backend_tool_clears_overrides_counterexample:
  "tool_backends (fst (set_backend override_example_config ''rope'' None))
     \<noteq> tool_backends override_example_config"
proof
  assume "tool_backends (fst (set_backend override_example_config ''rope'' None))
            = tool_backends override_example_config"
  then have "tool_backends (fst (set_backend override_example_config ''rope'' None)) ''hover''
               = tool_backends override_example_config ''hover''"
    by simp
  then show False
    by (simp add: set_backend_def set_all_backends_def Backend_of_value_def lower_examples
        override_example_config_def)
qed

text \<open>
  C8. After \<open>set_all_backends\<close> with backend \<open>b\<close> the default is \<open>b\<close>, no per-tool
  override is left, and the effective backend with no per-call argument is \<open>b\<close> for
  every shared tool, whatever was stored before.
\<close>

theorem set_all_backends_effective:
  "default_backend (set_all_backends cfg b) = b
   \<and> tool_backends (set_all_backends cfg b) = Map.empty
   \<and> (\<forall>t \<in> SHARED_TOOLS. get_effective_backend (set_all_backends cfg b) t None = b)"
  by (auto simp: set_all_backends_def get_effective_backend_def get_backend_for_def
      dest: exclusive_not_shared)

theorem set_all_backends_effective_witness:
  "''hover'' \<in> SHARED_TOOLS
   \<and> get_effective_backend override_example_config ''hover'' None = PYRIGHT
   \<and> get_effective_backend (set_all_backends override_example_config ROPE) ''hover'' None = ROPE"
proof -
  have h: "''hover'' \<in> SHARED_TOOLS" by (simp add: SHARED_TOOLS_def)
  have p: "get_effective_backend override_example_config ''hover'' None = PYRIGHT"
    by (simp add: get_effective_backend_def get_backend_for_def override_example_config_def
        ROPE_ONLY_TOOLS_def PYRIGHT_ONLY_TOOLS_def)
  from set_all_backends_effective [of override_example_config ROPE] h p
  show ?thesis by blast
qed

text \<open>
  C10. A per-call backend string that is neither \<open>rope\<close> nor \<open>pyright\<close> after
  lowercasing gives, for every tool and configuration, the same effective backend as no
  per-call argument; the function is total, so nothing is raised.
\<close>

theorem unknown_explicit_backend_ignored:
  "Backend_of_value (lower s) = None \<Longrightarrow>
     get_effective_backend cfg t (Some s) = get_effective_backend cfg t None"
  by (simp add: get_effective_backend_def)

theorem unknown_explicit_backend_ignored_witness:
  "Backend_of_value (lower ''jedi'') = None
   \<and> get_effective_backend override_example_config ''hover'' (Some ''jedi'') = PYRIGHT
   \<and> get_effective_backend override_example_config ''hover'' None = PYRIGHT"
proof -
  have n: "Backend_of_value (lower ''jedi'') = None"
    by (simp add: Backend_of_value_def lower_examples)
  have p: "get_effective_backend override_example_config ''hover'' None = PYRIGHT"
    by (simp add: get_effective_backend_def get_backend_for_def override_example_config_def
        ROPE_ONLY_TOOLS_def PYRIGHT_ONLY_TOOLS_def)
  from unknown_explicit_backend_ignored [OF n, of override_example_config "''hover''"] n p
  show ?thesis by simp
qed

section \<open>Path normalisation\<close>

lemma split_sep_no_sep: "x \<in> set (split_sep d s) \<Longrightarrow> d \<notin> set x"
  by (induction s arbitrary: x) (auto split: list.splits if_splits)

lemma split_sep_single: "d \<notin> set w \<Longrightarrow> split_sep d w = [w]"
  by (induction w) auto

lemma split_sep_append: "d \<notin> set w \<Longrightarrow> split_sep d (w @ d # s) = w # split_sep d s"
  by (induction w) auto

lemma split_join:
  "xs \<noteq> [] \<Longrightarrow> \<forall>x\<in>set xs. CHR ''/'' \<notin> set x \<Longrightarrow> split_sep CHR ''/'' (join_sep xs) = xs"
  by (induction xs rule: join_sep.induct) (auto simp: split_sep_single split_sep_append)

lemma split_sep_slashes:
  "split_sep CHR ''/'' (replicate n CHR ''/'' @ s) = replicate n [] @ split_sep CHR ''/'' s"
  by (induction n) auto

lemma join_sep_no_leading_slash:
  "\<forall>x\<in>set xs. x \<noteq> [] \<and> CHR ''/'' \<notin> set x \<Longrightarrow> \<not> prefix ''/'' (join_sep xs)"
proof (cases xs)
  case Nil
  then show ?thesis by simp
next
  case (Cons w ws)
  assume a: "\<forall>x\<in>set xs. x \<noteq> [] \<and> CHR ''/'' \<notin> set x"
  with Cons obtain c cs where w: "w = c # cs" and "c \<noteq> CHR ''/''"
    by (cases w) auto
  then show ?thesis using Cons by (cases ws) auto
qed

lemma foldl_norm_step_filter:
  "foldl (norm_step n) acc (filter (\<lambda>x. x \<noteq> [] \<and> x \<noteq> ''.'') xs) = foldl (norm_step n) acc xs"
  by (induction xs arbitrary: acc) (auto simp: norm_step_def)

lemma foldl_norm_step_only_empties: "foldl (norm_step n) acc (replicate k []) = acc"
  by (induction k) (auto simp: norm_step_def)

lemma foldl_norm_step_plain:
  "\<forall>x\<in>set xs. x \<noteq> [] \<and> x \<noteq> ''.'' \<and> x \<noteq> ''..'' \<Longrightarrow> foldl (norm_step n) acc xs = acc @ xs"
  by (induction xs arbitrary: acc) (auto simp: norm_step_def)

lemma norm_step_result:
  assumes "0 < n"
    and acc: "\<forall>x\<in>set acc. x \<noteq> [] \<and> x \<noteq> ''.'' \<and> x \<noteq> ''..'' \<and> CHR ''/'' \<notin> set x"
    and part: "CHR ''/'' \<notin> set part"
  shows "\<forall>x\<in>set (norm_step n acc part).
           x \<noteq> [] \<and> x \<noteq> ''.'' \<and> x \<noteq> ''..'' \<and> CHR ''/'' \<notin> set x"
proof (cases "part = [] \<or> part = ''.''")
  case True
  then have "norm_step n acc part = acc" by (simp add: norm_step_def)
  with acc show ?thesis by simp
next
  case skip: False
  show ?thesis
  proof (cases "part = ''..''")
    case False
    with skip have "norm_step n acc part = acc @ [part]" by (simp add: norm_step_def)
    with acc part skip False show ?thesis by simp
  next
    case True
    have nl: "last acc \<noteq> ''..''" if "acc \<noteq> []"
    proof
      assume "last acc = ''..''"
      with that have "''..'' \<in> set acc" by (metis last_in_set)
      with acc show False by blast
    qed
    have "norm_step n acc part = (if acc \<noteq> [] then butlast acc else acc)"
    proof (cases "acc = []")
      case True
      with \<open>part = ''..''\<close> assms(1) show ?thesis by (simp add: norm_step_def)
    next
      case False
      with nl have "last acc \<noteq> ''..''" by simp
      with False \<open>part = ''..''\<close> assms(1) show ?thesis by (simp add: norm_step_def)
    qed
    moreover have "set (butlast acc) \<subseteq> set acc" by (auto dest: in_set_butlastD)
    ultimately show ?thesis using acc by (cases "acc = []") auto
  qed
qed

lemma foldl_norm_step_result:
  assumes "0 < n"
    and "\<forall>x\<in>set acc. x \<noteq> [] \<and> x \<noteq> ''.'' \<and> x \<noteq> ''..'' \<and> CHR ''/'' \<notin> set x"
    and "\<forall>x\<in>set xs. CHR ''/'' \<notin> set x"
  shows "\<forall>x\<in>set (foldl (norm_step n) acc xs). x \<noteq> [] \<and> x \<noteq> ''.'' \<and> x \<noteq> ''..'' \<and> CHR ''/'' \<notin> set x"
  using assms(2,3)
proof (induction xs arbitrary: acc)
  case Nil
  then show ?case by simp
next
  case (Cons part xs)
  from Cons.prems have "CHR ''/'' \<notin> set part" by simp
  with assms(1) Cons.prems(1)
  have "\<forall>x\<in>set (norm_step n acc part). x \<noteq> [] \<and> x \<noteq> ''.'' \<and> x \<noteq> ''..'' \<and> CHR ''/'' \<notin> set x"
    by (rule norm_step_result)
  moreover from Cons.prems have "\<forall>x\<in>set xs. CHR ''/'' \<notin> set x" by simp
  ultimately have "\<forall>x\<in>set (foldl (norm_step n) (norm_step n acc part) xs).
      x \<noteq> [] \<and> x \<noteq> ''.'' \<and> x \<noteq> ''..'' \<and> CHR ''/'' \<notin> set x"
    by (rule Cons.IH)
  then show ?case by simp
qed

lemma normpath_absolute_form:
  assumes "prefix ''/'' p"
  shows "normpath p =
           replicate (if prefix ''//'' p \<and> \<not> prefix ''///'' p then 2 else 1) CHR ''/''
           @ join_sep (foldl (norm_step (if prefix ''//'' p \<and> \<not> prefix ''///'' p then 2 else 1)) []
                        (split_sep CHR ''/'' p))"
proof -
  from assms have "p \<noteq> []" by auto
  with assms show ?thesis by (auto simp: normpath_def Let_def)
qed

lemma normpath_of_joined:
  assumes n: "n = 1 \<or> n = 2"
    and R: "\<forall>x\<in>set R. x \<noteq> [] \<and> CHR ''/'' \<notin> set x"
  shows "normpath (replicate n CHR ''/'' @ join_sep R) =
           replicate n CHR ''/'' @ join_sep (foldl (norm_step n) [] R)"
proof -
  let ?j = "join_sep R"
  let ?q = "replicate n CHR ''/'' @ ?j"
  from R have nl: "\<not> prefix ''/'' ?j" by (rule join_sep_no_leading_slash)
  from n have abs: "prefix ''/'' ?q" by (auto simp: numeral_2_eq_2)
  have sl: "(if prefix ''//'' ?q \<and> \<not> prefix ''///'' ?q then 2 else 1) = n"
    using n nl by (cases ?j) (auto simp: numeral_2_eq_2)
  have "foldl (norm_step n) [] (split_sep CHR ''/'' ?q) = foldl (norm_step n) [] R"
  proof (cases "R = []")
    case True
    have "split_sep CHR ''/'' (replicate n CHR ''/'') = replicate n [] @ [[]]"
      using split_sep_slashes [of n "[]"] by simp
    with True show ?thesis by (simp add: foldl_norm_step_only_empties norm_step_def)
  next
    case False
    with R have "split_sep CHR ''/'' ?j = R" by (simp add: split_join)
    then have "split_sep CHR ''/'' ?q = replicate n [] @ R"
      by (simp only: split_sep_slashes)
    then show ?thesis
      by (simp only: foldl_append foldl_norm_step_only_empties)
  qed
  with normpath_absolute_form [OF abs] sl show ?thesis by simp
qed

lemma normpath_idempotent:
  assumes "prefix ''/'' p"
  shows "normpath (normpath p) = normpath p"
proof -
  define n :: nat where "n = (if prefix ''//'' p \<and> \<not> prefix ''///'' p then 2 else 1)"
  define R where "R = foldl (norm_step n) [] (split_sep CHR ''/'' p)"
  have n: "n = 1 \<or> n = 2" and pos: "0 < n" by (simp_all add: n_def)
  have form: "normpath p = replicate n CHR ''/'' @ join_sep R"
    using normpath_absolute_form [OF assms] by (simp add: n_def R_def)
  have good: "\<forall>x\<in>set R. x \<noteq> [] \<and> x \<noteq> ''.'' \<and> x \<noteq> ''..'' \<and> CHR ''/'' \<notin> set x"
    unfolding R_def by (rule foldl_norm_step_result [OF pos]) (auto dest: split_sep_no_sep)
  then have "foldl (norm_step n) [] R = R" by (simp add: foldl_norm_step_plain)
  moreover from good have "\<forall>x\<in>set R. x \<noteq> [] \<and> CHR ''/'' \<notin> set x" by simp
  ultimately show ?thesis using normpath_of_joined [OF n, of R] form by simp
qed

lemma normpath_Path:
  assumes "prefix ''/'' f"
  shows "normpath (path_str (Path f)) = normpath f"
proof -
  define n :: nat where "n = (if prefix ''//'' f \<and> \<not> prefix ''///'' f then 2 else 1)"
  define parts where "parts = filter (\<lambda>x. x \<noteq> [] \<and> x \<noteq> ''.'') (split_sep CHR ''/'' f)"
  have n: "n = 1 \<or> n = 2" by (simp add: n_def)
  have "path_str (Path f) = replicate n CHR ''/'' @ join_sep parts"
    using assms by (auto simp: path_str_def Path_def n_def parts_def numeral_2_eq_2)
  moreover have "\<forall>x\<in>set parts. x \<noteq> [] \<and> CHR ''/'' \<notin> set x"
    by (auto simp: parts_def dest: split_sep_no_sep)
  ultimately have "normpath (path_str (Path f)) =
                     replicate n CHR ''/'' @ join_sep (foldl (norm_step n) [] parts)"
    using normpath_of_joined [OF n] by simp
  also have "\<dots> = normpath f"
    using normpath_absolute_form [OF assms] by (simp add: n_def parts_def foldl_norm_step_filter)
  finally show ?thesis .
qed

lemma is_absolute_Path: "is_absolute (Path f) = prefix ''/'' f"
  by (simp add: is_absolute_def Path_def)

lemma resolve_without_workspace:
  assumes "\<not> truthy (active_workspace st)" and "prefix ''/'' (cwd env)"
  shows "resolve_file_path env st f = (Some (abspath (cwd env) f), None)"
proof (cases "prefix ''/'' f")
  case True
  then have "prefix ''/'' (path_str (Path f))"
    by (auto simp: path_str_def Path_def)
  with True have "abspath (cwd env) (path_str (Path f)) = abspath (cwd env) f"
    by (simp add: abspath_def normpath_Path)
  with True assms show ?thesis
    by (simp add: resolve_file_path_def Let_def is_absolute_Path)
next
  case False
  with assms(2) have a: "prefix ''/'' (path_join (cwd env) f)"
    by (auto simp: path_join_def prefix_def)
  then have "prefix ''/'' (normpath (path_join (cwd env) f))"
    by (auto simp: normpath_absolute_form numeral_2_eq_2)
  with False a have "abspath (cwd env) (abspath (cwd env) f) = abspath (cwd env) f"
    by (simp add: abspath_def normpath_idempotent)
  with False assms show ?thesis
    by (simp add: resolve_file_path_def Let_def is_absolute_Path)
qed

section \<open>Workspace containment\<close>

lemma replicate_slash_prefix: "0 < n \<Longrightarrow> prefix ''/'' (replicate n CHR ''/'' @ xs)"
  by (cases n) simp_all

lemma normpath_absolute:
  assumes "prefix ''/'' p"
  shows "prefix ''/'' (normpath p)"
proof -
  from assms have ne: "p \<noteq> []" by auto
  define n :: nat where "n = (if prefix ''//'' p \<and> \<not> prefix ''///'' p then 2 else 1)"
  define r where "r = replicate n CHR ''/'' @ join_sep (foldl (norm_step n) [] (split_sep CHR ''/'' p))"
  have pos: "0 < n" by (simp add: n_def)
  then have pr: "prefix ''/'' r" unfolding r_def by (rule replicate_slash_prefix)
  then have "r \<noteq> []" by auto
  moreover have "normpath p = (if r = [] then ''.'' else r)"
    using assms ne by (simp add: normpath_def Let_def n_def r_def)
  ultimately show ?thesis using pr by simp
qed

lemma path_join_absolute: "prefix ''/'' a \<Longrightarrow> prefix ''/'' (path_join a b)"
  by (auto simp: path_join_def prefix_def)

lemma abspath_absolute: "prefix ''/'' c \<Longrightarrow> prefix ''/'' (abspath c p)"
  by (simp add: abspath_def normpath_absolute path_join_absolute)

lemma resolve_rejects_outside_prefix:
  assumes "truthy (active_workspace st)"
    and "abs_path = abspath (cwd env)
           (if is_absolute (Path f) then path_str (Path f)
            else path_join (the (active_workspace st)) f)"
    and "\<not> prefix (the (active_workspace st)) abs_path"
  shows "resolve_file_path env st f =
           (None, Some \<lparr>error = ''Context Mismatch'',
                        message = mismatch_message f abs_path (the (active_workspace st)),
                        current_workspace = the (active_workspace st),
                        resolved_path = abs_path\<rparr>)"
  using assms by (auto simp: resolve_file_path_def Let_def)

lemma abspath_work2: "abspath c ''/work2/a.py'' = ''/work2/a.py''"
  by (simp add: abspath_def normpath_def norm_step_def)

text \<open>
  C1. A path outside the active workspace is to be answered with the Context Mismatch
  error, containment being decided at a path-separator boundary. The check of the code is
  \<open>startswith\<close> on the two strings: with the active workspace \<open>/work\<close>, the file
  \<open>/work2/a.py\<close> of a sibling directory is returned as resolved, with no error.
\<close>

theorem sibling_prefix_accepted:
  "resolve_file_path env work_state ''/work2/a.py'' = (Some ''/work2/a.py'', None)"
  by (simp add: resolve_file_path_def work_state_def truthy_def Path_def is_absolute_def
      path_str_def abspath_work2)

text \<open>
  C9. \<open>resolve_file_path\<close> returns either a path and no error, or no path and an
  error, for every input and state. With no active workspace it returns the path form and
  never an error: the path is \<open>abspath\<close> applied to the input made absolute, which, the
  current directory being absolute as \<open>os.getcwd()\<close> is, is the absolute path
  \<open>os.path.abspath(file_path)\<close>: the normalised input, joined onto the current directory
  when relative.
\<close>

theorem resolve_result_shape:
  "((\<exists>p. resolve_file_path env st f = (Some p, None))
      \<or> (\<exists>e. resolve_file_path env st f = (None, Some e)))
   \<and> (\<not> truthy (active_workspace st) \<longrightarrow>
        resolve_file_path env st f =
          (Some (abspath (cwd env)
                   (if is_absolute (Path f) then path_str (Path f) else abspath (cwd env) f)),
           None))
   \<and> (\<not> truthy (active_workspace st) \<and> prefix ''/'' (cwd env) \<longrightarrow>
        resolve_file_path env st f = (Some (abspath (cwd env) f), None)
        \<and> prefix ''/'' (abspath (cwd env) f)
        \<and> abspath (cwd env) f
            = normpath (if prefix ''/'' f then f else path_join (cwd env) f))"
proof (intro conjI impI)
  show "(\<exists>p. resolve_file_path env st f = (Some p, None))
      \<or> (\<exists>e. resolve_file_path env st f = (None, Some e))"
    by (simp add: resolve_file_path_def Let_def)
  show "resolve_file_path env st f =
          (Some (abspath (cwd env)
                   (if is_absolute (Path f) then path_str (Path f) else abspath (cwd env) f)),
           None)" if "\<not> truthy (active_workspace st)"
    using that by (simp add: resolve_file_path_def Let_def)
  show "resolve_file_path env st f = (Some (abspath (cwd env) f), None)"
    if "\<not> truthy (active_workspace st) \<and> prefix ''/'' (cwd env)"
    using that by (simp add: resolve_without_workspace)
  show "prefix ''/'' (abspath (cwd env) f)"
    if "\<not> truthy (active_workspace st) \<and> prefix ''/'' (cwd env)"
    using that by (simp add: abspath_absolute)
  show "abspath (cwd env) f = normpath (if prefix ''/'' f then f else path_join (cwd env) f)"
    by (simp add: abspath_def)
qed

theorem resolve_result_shape_witness:
  "\<not> truthy (active_workspace initial_state) \<and> prefix ''/'' (cwd example_env)
   \<and> resolve_file_path example_env initial_state ''sub/a.py'' = (Some ''/home/u/sub/a.py'', None)
   \<and> resolve_file_path example_env work_state ''sub/a.py'' = (Some ''/work/sub/a.py'', None)
   \<and> fst (resolve_file_path example_env work_state ''/other/a.py'') = None
   \<and> snd (resolve_file_path example_env work_state ''/other/a.py'') \<noteq> None"
proof -
  have a: "\<not> truthy (active_workspace initial_state)"
    by (simp add: initial_state_def truthy_def)
  have b: "prefix ''/'' (cwd example_env)"
    by (simp add: example_env_def)
  have e: "cwd example_env = ''/home/u''"
    by (simp add: example_env_def)
  have f: "resolve_file_path example_env work_state ''sub/a.py'' = (Some ''/work/sub/a.py'', None)"
    by code_simp
  have g: "fst (resolve_file_path example_env work_state ''/other/a.py'') = None"
    by code_simp
  from resolve_result_shape [of example_env work_state "''/other/a.py''"] g
  have h: "snd (resolve_file_path example_env work_state ''/other/a.py'') \<noteq> None"
    by auto
  have i: "abspath ''/home/u'' ''sub/a.py'' = ''/home/u/sub/a.py''"
    by code_simp
  from resolve_result_shape [of example_env initial_state "''sub/a.py''"] a b
  have "resolve_file_path example_env initial_state ''sub/a.py''
          = (Some (abspath (cwd example_env) ''sub/a.py''), None)"
    by blast
  with e i
  have j: "resolve_file_path example_env initial_state ''sub/a.py'' = (Some ''/home/u/sub/a.py'', None)"
    by simp
  from a b j f g h show ?thesis by simp
qed

lemma other_rejected:
  "resolve_file_path env work_state ''/other/a.py'' =
     (None, Some \<lparr>error = ''Context Mismatch'',
                  message = mismatch_message ''/other/a.py'' ''/other/a.py'' ''/work'',
                  current_workspace = ''/work'',
                  resolved_path = ''/other/a.py''\<rparr>)"
  by (simp add: resolve_file_path_def work_state_def initial_state_def truthy_def Path_def is_absolute_def
      path_str_def abspath_def normpath_def norm_step_def Let_def mismatch_message_def)

section \<open>Interpreter discovery\<close>

subsection \<open>Paths rendered by the probes are never empty\<close>








subsection \<open>The probes on a typed table\<close>

















subsection \<open>The precedence chain\<close>





subsection \<open>The scenario of workspace /proj\<close>

lemma abspath_proj: "abspath c ''/proj'' = ''/proj''"
  by (simp add: abspath_def normpath_def norm_step_def)

lemma proj_config_file:
  "path_str (path_div (Path ''/proj'') (Path ''pyrightconfig.json'')) = ''/proj/pyrightconfig.json''"
  by (simp add: Path_def path_div_def path_str_def is_absolute_def)



subsection \<open>Configuration files that are missing, unreadable or malformed\<close>

lemma from_pyrightconfig_not_loaded:
  "fs_stat env (path_str (path_div wp (Path ''pyrightconfig.json''))) = Missing
     \<or> fs_stat env (path_str (path_div wp (Path ''pyrightconfig.json''))) = Exists
        \<and> (json_load env (path_str (path_div wp (Path ''pyrightconfig.json''))) = LoadOSError
           \<or> json_load env (path_str (path_div wp (Path ''pyrightconfig.json''))) = LoadDecodeError)
   \<Longrightarrow> from_pyrightconfig env wp = Inr None"
  by (auto simp: from_pyrightconfig_def Path_exists_def except_pass_def Let_def)

lemma from_pyproject_not_loaded:
  "fs_stat env (path_str (path_div wp (Path ''pyproject.toml''))) = Missing
     \<or> fs_stat env (path_str (path_div wp (Path ''pyproject.toml''))) = Exists
        \<and> (toml_load env (path_str (path_div wp (Path ''pyproject.toml''))) = LoadOSError
           \<or> toml_load env (path_str (path_div wp (Path ''pyproject.toml''))) = LoadDecodeError)
   \<Longrightarrow> from_pyproject env wp = Inr None"
  by (auto simp: from_pyproject_def Path_exists_def except_pass_def Let_def)

lemma find_pyright_not_loaded:
  assumes "fs_stat env (path_str (path_div (Path w) (Path ''pyrightconfig.json''))) = Missing
     \<or> fs_stat env (path_str (path_div (Path w) (Path ''pyrightconfig.json''))) = Exists
        \<and> (json_load env (path_str (path_div (Path w) (Path ''pyrightconfig.json''))) = LoadOSError
           \<or> json_load env (path_str (path_div (Path w) (Path ''pyrightconfig.json''))) = LoadDecodeError)"
    and "fs_stat env (path_str (path_div (Path w) (Path ''pyproject.toml''))) = Missing
     \<or> fs_stat env (path_str (path_div (Path w) (Path ''pyproject.toml''))) = Exists
        \<and> (toml_load env (path_str (path_div (Path w) (Path ''pyproject.toml''))) = LoadOSError
           \<or> toml_load env (path_str (path_div (Path w) (Path ''pyproject.toml''))) = LoadDecodeError)"
  shows "find_pyright_python_path env w = Inr None"
  using from_pyrightconfig_not_loaded [OF assms(1)] from_pyproject_not_loaded [OF assms(2)]
  by (simp add: find_pyright_python_path_def truthy_def)

lemma find_pyright_other_error:
  assumes "fs_stat env (path_str (path_div (Path w) (Path ''pyrightconfig.json''))) = Exists"
    and "json_load env (path_str (path_div (Path w) (Path ''pyrightconfig.json''))) = LoadOtherError e"
    and "e \<noteq> OSError"
  shows "find_pyright_python_path env w = Inl e"
  using assms
  by (simp add: find_pyright_python_path_def from_pyrightconfig_def Path_exists_def except_pass_def)

lemma find_pyright_stat_error:
  "fs_stat env (path_str (path_div (Path w) (Path ''pyrightconfig.json''))) = StatOSError \<Longrightarrow>
     find_pyright_python_path env w = Inl OSError"
  by (simp add: find_pyright_python_path_def from_pyrightconfig_def Path_exists_def)

subsection \<open>The precedence theorem\<close>








text \<open>
  C5. The probes are to treat a configuration file of any content as "not found" and
  never raise. A missing, unreadable or syntactically malformed file is treated so (lemma
  \<open>find_pyright_not_loaded\<close>). A \<open>pyrightconfig.json\<close> that parses but holds
  \<open>{"pythonPath": null}\<close> makes \<open>Path(config["pythonPath"])\<close> raise TypeError, which
  neither \<open>except\<close> clause of \<open>find_pyright_python_path\<close> catches: the probe raises,
  and so does the resolution that calls it.
\<close>

theorem null_python_path_raises:
  "find_pyright_python_path null_path_env ''/proj'' = Inl TypeError
   \<and> get_python_path_for_workspace null_path_env initial_state ''/proj'' = Inl TypeError"
proof -
  have a: "fs_stat null_path_env ''/proj/pyrightconfig.json'' = Exists"
    and b: "json_load null_path_env ''/proj/pyrightconfig.json'' = Loaded (PDict [(''pythonPath'', PNone)])"
    and c: "cwd null_path_env = ''/home/u''"
    by (simp_all add: null_path_env_def example_env_def)
  have "extract_python_path_from_pyright null_path_env (PDict [(''pythonPath'', PNone)]) (Path ''/proj'')
          = Inl TypeError"
    by (simp add: extract_python_path_from_pyright_def extract_direct_def)
  with a b have d: "find_pyright_python_path null_path_env ''/proj'' = Inl TypeError"
    by (simp add: find_pyright_python_path_def from_pyrightconfig_def proj_config_file
        Path_exists_def except_pass_def)
  then show ?thesis
    by (simp add: get_python_path_for_workspace_def initial_state_def truthy_def abspath_proj)
qed

subsection \<open>The setter\<close>

lemma set_python_path_stat_error:
  "fs_stat env (path_str (Path p)) = StatOSError \<Longrightarrow> set_python_path env st p w = Inl OSError"
  by (simp add: set_python_path_def Path_exists_def)

lemma set_python_path_cases:
  "(fs_stat env (path_str (Path p)) = Missing \<longrightarrow>
      set_python_path env st p w = Inr (st, Failure (''Python path does not exist: '' @ p)))
   \<and> (fs_stat env (path_str (Path p)) = Exists \<and> \<not> fs_access_x env p \<longrightarrow>
      set_python_path env st p w = Inr (st, Failure (''Python path is not executable: '' @ p)))
   \<and> (fs_stat env (path_str (Path p)) = Exists \<and> fs_access_x env p \<and> w = Some ws \<and> ws \<noteq> [] \<longrightarrow>
      set_python_path env st p w
        = Inr (st\<lparr>python_paths := (python_paths st)(abspath (cwd env) ws \<mapsto> p)\<rparr>,
               Success (''Python path set for workspace: '' @ abspath (cwd env) ws) p
                 (Some (abspath (cwd env) ws)))
      \<and> get_python_path_for_workspace env
           (st\<lparr>python_paths := (python_paths st)(abspath (cwd env) ws \<mapsto> p)\<rparr>) ws = Inr p)
   \<and> (fs_stat env (path_str (Path p)) = Exists \<and> fs_access_x env p \<and> \<not> truthy w \<longrightarrow>
      set_python_path env st p w
        = Inr (st\<lparr>global_python_path := Some p\<rparr>, Success ''Global Python path set'' p None))"
  by (simp add: set_python_path_def Path_exists_def truthy_def Let_def
      get_python_path_for_workspace_def)

text \<open>
  C6. A path that does not exist is to fail with the "does not exist" error, and only a
  path that exists but lacks execute permission with the "not executable" error. The code
  tests existence on \<open>Path(python_path)\<close>, which \<open>pathlib\<close> has normalised, and
  executability on the string as given. The empty string does not exist, but
  \<open>Path("")\<close> is the current directory, which does: the answer is "not executable".
  The path \<open>/usr/bin/python3/\<close>, an executable file named with a trailing slash, does not
  exist as given, but \<open>Path\<close> drops the slash: the answer is again "not executable",
  though the file the test of existence looked at is executable. In both cases nothing is
  stored.
\<close>

theorem normalised_existence_raw_access:
  "fs_stat example_env '''' = Missing
   \<and> set_python_path example_env initial_state '''' None
       = Inr (initial_state, Failure ''Python path is not executable: '')
   \<and> fs_stat example_env ''/usr/bin/python3/'' = Missing
   \<and> fs_stat example_env ''/usr/bin/python3'' = Exists
   \<and> fs_access_x example_env ''/usr/bin/python3''
   \<and> set_python_path example_env initial_state ''/usr/bin/python3/'' (Some ''/proj'')
       = Inr (initial_state, Failure ''Python path is not executable: /usr/bin/python3/'')"
  by (simp add: set_python_path_def Path_exists_def example_env_def Path_def path_str_def)

section \<open>Edit application\<close>

lemma sort_reverse_permutation:
  assumes "distinct (map start_key xs)" and "mset ys = mset xs"
  shows "sort_reverse ys = sort_reverse xs"
proof -
  from assms(2) have "set ys = set xs" by (rule mset_eq_setD)
  moreover from assms(1) have "inj_on start_key (set xs)" by (simp add: distinct_map)
  ultimately have i: "inj_on start_key (set (rev ys))" by simp
  from assms(2) have "mset (rev ys) = mset (rev xs)" by simp
  then have "sort_key start_key (rev ys) = sort_key start_key (rev xs)"
    using i by (rule sort_key_eq_sort_key)
  then show ?thesis by (simp add: sort_reverse_def)
qed

lemma non_overlapping_distinct_starts:
  "non_overlapping es \<Longrightarrow> \<forall>e\<in>set es. start_key e < end_key e \<Longrightarrow> distinct (map start_key es)"
proof (induction es)
  case Nil
  then show ?case by simp
next
  case (Cons e es)
  have "start_key e \<noteq> start_key d" if "d \<in> set es" for d
  proof
    assume eq: "start_key e = start_key d"
    from Cons.prems(1) that have "end_key e \<le> start_key d \<or> end_key d \<le> start_key e"
      by (simp add: list_all_iff)
    moreover from Cons.prems(2) that have "start_key e < end_key e" "start_key d < end_key d"
      by simp_all
    ultimately show False using eq by auto
  qed
  with Cons show ?case by auto
qed

lemma example_sorted:
  "sort_reverse [replace_line1, replace_line2] = [replace_line2, replace_line1]"
  "sort_reverse [replace_line2, replace_line1] = [replace_line2, replace_line1]"
  by (simp_all add: sort_reverse_def start_key_def replace_line1_def replace_line2_def)

lemma example_applied:
  "apply_text_edits position_to_offset example_content [replace_line2, replace_line1]
     = Inr (''LINE1'' @ [CHR 0x0A] @ ''LINE2'' @ [CHR 0x0A])"
  by (simp add: example_content_def replace_line1_def replace_line2_def position_to_offset_def
      slice_to_def slice_from_def)

text \<open>
  C3. For every content, every conversion helper and every list of edits to one file
  whose start positions are pairwise distinct, the result of sorting by start position,
  descending, and substituting in that order does not depend on the order in which the
  edits were given; the same holds for the file store after \<open>_apply_workspace_edit\<close>.
  For the content \<open>line1\<newline>line2\<newline>\<close> and the two replacements of characters 0 to 5 of
  lines 0 and 1, both input orders give \<open>LINE1\<newline>LINE2\<newline>\<close>.
\<close>

theorem edit_order_independent:
  "(distinct (map start_key xs) \<and> mset ys = mset xs \<longrightarrow>
      edit_file p2o content ys = edit_file p2o content xs
      \<and> apply_workspace_edit p2o w files ((uri, ys) # changes)
          = apply_workspace_edit p2o w files ((uri, xs) # changes))
   \<and> edit_file position_to_offset example_content [replace_line1, replace_line2]
       = Inr (''LINE1'' @ [CHR 0x0A] @ ''LINE2'' @ [CHR 0x0A])
   \<and> edit_file position_to_offset example_content [replace_line2, replace_line1]
       = Inr (''LINE1'' @ [CHR 0x0A] @ ''LINE2'' @ [CHR 0x0A])"
proof (intro conjI impI)
  assume a: "distinct (map start_key xs) \<and> mset ys = mset xs"
  then have "sort_reverse ys = sort_reverse xs"
    by (simp add: sort_reverse_permutation)
  then show e: "edit_file p2o content ys = edit_file p2o content xs" for content
    by (simp add: edit_file_def)
  then show "apply_workspace_edit p2o w files ((uri, ys) # changes)
          = apply_workspace_edit p2o w files ((uri, xs) # changes)"
    by (simp add: Let_def split: option.splits)
qed (simp_all only: edit_file_def example_sorted example_applied)

theorem edit_order_independent_witness:
  "distinct (map start_key [replace_line1, replace_line2])
   \<and> mset [replace_line2, replace_line1] = mset [replace_line1, replace_line2]
   \<and> edit_file position_to_offset example_content [replace_line2, replace_line1]
       = edit_file position_to_offset example_content [replace_line1, replace_line2]
   \<and> edit_file position_to_offset example_content [replace_line1, replace_line2]
       = Inr (''LINE1'' @ [CHR 0x0A] @ ''LINE2'' @ [CHR 0x0A])"
proof -
  have d: "distinct (map start_key [replace_line1, replace_line2])"
    by (simp add: start_key_def replace_line1_def replace_line2_def)
  have m: "mset [replace_line2, replace_line1] = mset [replace_line1, replace_line2]"
    by simp
  from edit_order_independent
    [of "[replace_line1, replace_line2]" "[replace_line2, replace_line1]" position_to_offset
      example_content] d m
  show ?thesis by simp
qed

theorem same_start_order_counterexample:
  "non_overlapping [insert_X, insert_Y]
   \<and> mset [insert_Y, insert_X] = mset [insert_X, insert_Y]
   \<and> edit_file position_to_offset ''ab'' [insert_X, insert_Y] = Inr ''aYXb''
   \<and> edit_file position_to_offset ''ab'' [insert_Y, insert_X] = Inr ''aXYb''
   \<and> edit_file position_to_offset ''ab'' [insert_X, insert_Y]
       \<noteq> edit_file position_to_offset ''ab'' [insert_Y, insert_X]"
  by (simp add: edit_file_def sort_reverse_def start_key_def end_key_def insert_X_def insert_Y_def
      position_to_offset_def slice_to_def slice_from_def)

end
